theory Spec2Isabelle
  imports Complex_Main "HOL-Library.Word"
begin

unbundle bit_operations_syntax

section \<open>Data model of stats_writer.cpp\<close>

text \<open>
  The development embeds \<^verbatim>\<open>userspace/falco/stats_writer.cpp\<close> in the build for Linux
  (neither \<^verbatim>\<open>MINIMAL_BUILD\<close> nor \<^verbatim>\<open>__EMSCRIPTEN__\<close> defined), the only build in
  which the queue, the worker thread and both counter lists exist.

  Machine integers are words of the width the source declares. A \<^verbatim>\<open>double\<close> is modelled
  as a real number: the operations of the source on doubles (conversion from an unsigned
  integer, division, multiplication, \<^verbatim>\<open>std::round\<close>, conversion back to an unsigned integer)
  are the exact operations on reals, and the rounding error of IEEE-754 is not modelled.
\<close>

type_synonym ticker_t = "16 word"
type_synonym uint64_t = "64 word"
type_synonym uint32_t = "32 word"
type_synonym double = real

text \<open>The values \<^verbatim>\<open>nlohmann::json\<close> stores for the assignments the source makes.\<close>

datatype json = JU64 uint64_t | JU32 uint32_t | JDouble double | JString string

type_synonym json_object = "string \<rightharpoonup> json"

subsection \<open>C strings\<close>

text \<open>
  A \<^verbatim>\<open>char\<close> array holds a C string: its content up to the first NUL. A name of the model is
  the content of the array; a NUL inside it ends the C string as it does in C.
\<close>

definition NUL :: char where
  "NUL = CHR 0x00"

definition c_str :: "string \<Rightarrow> string" where
  "c_str s = takeWhile (\<lambda>c. c \<noteq> NUL) s"

text \<open>\<^verbatim>\<open>strncmp(a, b, n) == 0\<close>: the first \<open>n\<close> characters agree, the terminator included.\<close>

definition strncmp_eq :: "string \<Rightarrow> string \<Rightarrow> nat \<Rightarrow> bool" where
  "strncmp_eq a b n = (take n (c_str a @ [NUL]) = take n (c_str b @ [NUL]))"

text \<open>
  \<^verbatim>\<open>char metric_name[size] = dst; strlcat(metric_name, src, size)\<close>: the concatenation, cut
  to \<open>size - 1\<close> characters.
\<close>

definition strlcat :: "string \<Rightarrow> string \<Rightarrow> nat \<Rightarrow> string" where
  "strlcat dst src sz = take (sz - 1) (c_str dst @ c_str src)"

subsection \<open>Doubles\<close>

definition u64_to_double :: "uint64_t \<Rightarrow> double" where
  "u64_to_double v = of_nat (unat v)"

definition u32_to_double :: "uint32_t \<Rightarrow> double" where
  "u32_to_double v = of_nat (unat v)"

text \<open>\<^verbatim>\<open>std::round\<close>: to the nearest integer, halfway cases away from zero.\<close>

definition std_round :: "double \<Rightarrow> double" where
  "std_round x = (if 0 \<le> x then of_int \<lfloor>x + 1 / 2\<rfloor> else of_int \<lceil>x - 1 / 2\<rceil>)"

text \<open>The casts \<^verbatim>\<open>(uint64_t)x\<close> and \<^verbatim>\<open>(uint32_t)x\<close> of a double: truncation towards zero.\<close>

definition c_trunc :: "double \<Rightarrow> int" where
  "c_trunc x = (if 0 \<le> x then \<lfloor>x\<rfloor> else \<lceil>x\<rceil>)"

definition double_to_u64 :: "double \<Rightarrow> uint64_t" where
  "double_to_u64 x = word_of_int (c_trunc x)"

definition double_to_u32 :: "double \<Rightarrow> uint32_t" where
  "double_to_u32 x = word_of_int (c_trunc x)"

text \<open>
  Modelled from the spec: the macro \<^verbatim>\<open>ONE_SECOND_IN_NS\<close> is defined in a header that is not
  part of the sources. The clock of \<^verbatim>\<open>collect\<close> counts nanoseconds and the spec's rates are
  per second (an interval of 1000 ms with 50 more events gives a rate of 50.0).
\<close>

definition ONE_SECOND_IN_NS :: uint64_t where
  "ONE_SECOND_IN_NS = 1000000000"

subsection \<open>Constants of the headers\<close>

text \<open>
  The macros, enumerators and string constants the source takes from headers of libscap,
  libsinsp and Falco that are not part of the sources. They are parameters of the model.
\<close>

record header_consts =
  FALCO_VERSION :: string
  BPF_ENGINE :: string
  KMOD_ENGINE :: string
  MODERN_BPF_ENGINE :: string
  SOURCE_PLUGIN_ENGINE :: string
  NODRIVER_ENGINE :: string
  GVISOR_ENGINE :: string
  STATS_NAME_MAX :: nat
  PPM_SCAP_STATS_STATE_COUNTERS :: uint32_t
  PPM_SCAP_STATS_RESOURCE_UTILIZATION :: uint32_t
  PPM_SCAP_STATS_LIBBPF_STATS :: uint32_t
  SINSP_STATS_V2_N_THREADS :: nat
  syscall_source :: string

subsection \<open>Configuration, counters and the inspector\<close>

record falco_configuration =
  m_metrics_enabled :: bool
  m_metrics_output_file :: string
  m_metrics_stats_rule_enabled :: bool
  m_outputs_queue_capacity :: nat
  m_metrics_flags :: uint32_t
  m_metrics_include_empty_values :: bool
  m_metrics_convert_memory_to_mb :: bool

text \<open>
  The tag of a counter. The source has cases for three enumerators and a \<^verbatim>\<open>default\<close>;
  \<open>STATS_VALUE_TYPE_OTHER\<close> stands for every other enumerator.
\<close>

datatype scap_stats_v2_value_type =
  STATS_VALUE_TYPE_U64 | STATS_VALUE_TYPE_U32 | STATS_VALUE_TYPE_D | STATS_VALUE_TYPE_OTHER

text \<open>
  One entry of a counter list. \<^verbatim>\<open>value\<close> is a union in C; the model keeps one field for each
  member the source reads, so that no assumption on the layout of the union is made.
\<close>

record scap_stats_v2 =
  name :: string
  type :: scap_stats_v2_value_type
  value_u64 :: uint64_t
  value_u32 :: uint32_t
  value_d :: double

text \<open>
  What a query for a counter list returns: the array (or a null pointer) and the return
  code. \<^verbatim>\<open>nstats\<close> is the number of entries of the array.
\<close>

record stats_query =
  snapshot :: "scap_stats_v2 list option"
  rc :: int

definition nstats :: "stats_query \<Rightarrow> nat" where
  "nstats q = (case snapshot q of None \<Rightarrow> 0 | Some xs \<Rightarrow> length xs)"

record scap_agent_info =
  start_ts_epoch :: uint64_t
  uname_r :: string

record scap_machine_info =
  boot_ts_epoch :: uint64_t
  hostname :: string
  num_cpus :: uint32_t

text \<open>
  The inspector and the outputs as \<^verbatim>\<open>collect\<close> reads them: the two info structures, the
  engine test, the two counter queries (each a function of the flags) and the number of
  drops of the outputs queue.
\<close>

record sinsp =
  get_agent_info :: scap_agent_info
  get_machine_info :: scap_machine_info
  check_current_engine :: "string \<Rightarrow> bool"
  get_sinsp_stats_v2 :: "uint32_t \<Rightarrow> stats_query"
  get_capture_stats_v2 :: "uint32_t \<Rightarrow> stats_query"
  get_outputs_queue_num_drops :: uint64_t

subsection \<open>Messages, the writer and the collector\<close>

record msg =
  stop :: bool
  ts :: uint64_t
  source :: string
  output_fields :: json_object

text \<open>
  The members of \<^verbatim>\<open>stats_writer\<close> the producers use. The members only the worker thread
  touches (\<^verbatim>\<open>m_total_samples\<close>, \<^verbatim>\<open>m_file_output\<close> and the calls on \<^verbatim>\<open>m_outputs\<close>) are
  part of the state of the worker below.
\<close>

record stats_writer =
  m_initialized :: bool
  m_queue :: "msg list"

record collector =
  m_last_tick :: ticker_t
  m_last_now :: uint64_t
  m_last_num_evts :: uint64_t
  m_last_n_evts :: uint64_t
  m_last_n_drops :: uint64_t

text \<open>A process either runs on in a state or has called \<^verbatim>\<open>exit\<close> after a line on stderr.\<close>

datatype exit_status = EXIT_SUCCESS | EXIT_FAILURE

datatype 'a process = Running 'a | Exited string exit_status

section \<open>The bounded queue and push\<close>

text \<open>
  Modelled from the spec: \<^verbatim>\<open>m_queue.try_push\<close> is a member of the queue class, which is
  not part of the sources. The spec's \<^verbatim>\<open>try_send\<close> is non-blocking, returns false if the
  queue is at capacity, and the queue is FIFO with a capacity fixed at construction.
  \<open>None\<close> is the result false.
\<close>

definition try_push :: "nat \<Rightarrow> msg list \<Rightarrow> msg \<Rightarrow> msg list option" where
  "try_push capacity q m = (if length q < capacity then Some (q @ [m]) else None)"

definition push :: "falco_configuration \<Rightarrow> stats_writer \<Rightarrow> msg \<Rightarrow> stats_writer process" where
  "push config w m =
     (case try_push (m_outputs_queue_capacity config) (m_queue w) m of
        None \<Rightarrow>
          Exited (''Fatal error: Stats queue reached maximum capacity. Exiting.'' @ [CHR 0x0A])
            EXIT_FAILURE
      | Some q \<Rightarrow> Running (w\<lparr>m_queue := q\<rparr>))"


text \<open>The constructor: the writer is initialised when metrics are enabled and a sink is.\<close>

definition stats_writer_init :: "falco_configuration \<Rightarrow> stats_writer" where
  "stats_writer_init config =
     \<lparr>m_initialized =
        (m_metrics_enabled config \<and>
         (m_metrics_output_file config \<noteq> [] \<or> m_metrics_stats_rule_enabled config)),
      m_queue = []\<rparr>"

text \<open>
  Modelled from the spec: \<^verbatim>\<open>has_output\<close> is defined in the header, which is not part of the
  sources. The spec has the subsystem inert when no sink is enabled, which is what
  \<^verbatim>\<open>m_initialized\<close> records.
\<close>

definition has_output :: "stats_writer \<Rightarrow> bool" where
  "has_output w = m_initialized w"

section \<open>The worker\<close>

text \<open>
  One round of the worker's loop consumes a delivery: the message \<^verbatim>\<open>m_queue.pop\<close> returns,
  the value \<^verbatim>\<open>get_ticker\<close> has when the worker reads it, and what the two sinks do with the
  message: \<open>Some what\<close> when the call throws a \<^verbatim>\<open>std::exception\<close> whose \<^verbatim>\<open>what()\<close> is
  \<open>what\<close>. (The exceptions of the sinks, of the JSON library and of the output stream are all
  derived from \<^verbatim>\<open>std::exception\<close>.)
\<close>

record delivery =
  popped :: msg
  ticker :: ticker_t
  handle_msg_throws :: "string option"
  file_write_throws :: "string option"

text \<open>A call of \<^verbatim>\<open>m_outputs->handle_msg\<close>: timestamp, message, rule and fields.\<close>

type_synonym handle_msg_call = "uint64_t \<times> string \<times> string \<times> json_object"

text \<open>
  The state of the worker: its locals, the counter \<^verbatim>\<open>m_total_samples\<close>, and what it has
  done so far: the calls of \<^verbatim>\<open>handle_msg\<close> that returned, the lines written to
  \<^verbatim>\<open>m_file_output\<close> (the sample number and the fields of each) and the lines logged.
\<close>

record worker_state =
  last_tick :: ticker_t
  first_tick :: ticker_t
  m_total_samples :: uint64_t
  handled :: "handle_msg_call list"
  m_file_output :: "(uint64_t \<times> json_object) list"
  logged :: "string list"

text \<open>
  The \<^verbatim>\<open>try\<close> block. \<open>Inl (what, st')\<close>: a sink has thrown, in the state \<open>st'\<close> the block had
  reached.
\<close>

definition dispatch ::
  "falco_configuration \<Rightarrow> worker_state \<Rightarrow> delivery \<Rightarrow> (string \<times> worker_state) + worker_state" where
  "dispatch config st d =
     (let use_outputs = m_metrics_stats_rule_enabled config;
          use_file = (m_metrics_output_file config \<noteq> []);
          m = popped d;
          r = (if use_outputs
               then (case handle_msg_throws d of
                       Some what \<Rightarrow> Inl (what, st)
                     | None \<Rightarrow>
                         Inr (st\<lparr>handled := handled st @
                                [(ts m, ''Falco metrics snapshot'',
                                  ''Falco internal: metrics snapshot'', output_fields m)]\<rparr>))
               else Inr st)
      in case r of
           Inl e \<Rightarrow> Inl e
         | Inr st1 \<Rightarrow>
             (if use_file
              then (case file_write_throws d of
                      Some what \<Rightarrow> Inl (what, st1)
                    | None \<Rightarrow>
                        Inr (st1\<lparr>m_file_output := m_file_output st1 @
                               [(m_total_samples st1, output_fields m)]\<rparr>))
              else Inr st1))"

text \<open>
  The body of \<^verbatim>\<open>while(true)\<close> after the pop. \<open>None\<close>: the worker returns. The \<^verbatim>\<open>catch\<close>
  clause adds a line to the log and the loop goes on.
\<close>

definition worker_body :: "falco_configuration \<Rightarrow> worker_state \<Rightarrow> delivery \<Rightarrow> worker_state option" where
  "worker_body config st d =
     (if stop (popped d) then None
      else
        (let tick = ticker d in
         if first_tick st \<noteq> tick
         then
           (let st1 = (if last_tick st \<noteq> tick
                       then st\<lparr>m_total_samples := m_total_samples st + 1\<rparr> else st);
                st2 = st1\<lparr>last_tick := tick\<rparr>
            in case dispatch config st2 d of
                 Inr st3 \<Rightarrow> Some st3
               | Inl (what, st3) \<Rightarrow>
                   Some (st3\<lparr>logged := logged st3 @
                                [''stats_writer (worker): '' @ what @ [CHR 0x0A]]\<rparr>))
         else Some st))"

text \<open>
  The loop over the deliveries of a run. After the last one the worker is blocked in
  \<^verbatim>\<open>m_queue.pop\<close>.
\<close>

datatype worker_result = Returned worker_state | Blocked worker_state

fun worker_loop :: "falco_configuration \<Rightarrow> worker_state \<Rightarrow> delivery list \<Rightarrow> worker_result" where
  "worker_loop config st [] = Blocked st"
| "worker_loop config st (d # ds) =
     (case worker_body config st d of
        None \<Rightarrow> Returned st
      | Some st' \<Rightarrow> worker_loop config st' ds)"

text \<open>
  The worker from its start: \<open>tick\<close> is the ticker when the thread starts, \<open>samples\<close> the value
  of \<^verbatim>\<open>m_total_samples\<close> then.
\<close>

definition worker :: "falco_configuration \<Rightarrow> ticker_t \<Rightarrow> uint64_t \<Rightarrow> delivery list \<Rightarrow> worker_result" where
  "worker config tick samples ds =
     worker_loop config
       \<lparr>last_tick = tick, first_tick = tick, m_total_samples = samples,
        handled = [], m_file_output = [], logged = []\<rparr> ds"

section \<open>The collector\<close>

subsection \<open>Wrapper fields and the userspace event rate\<close>

definition all_driver_engines :: "header_consts \<Rightarrow> string list" where
  "all_driver_engines K =
     [BPF_ENGINE K, KMOD_ENGINE K, MODERN_BPF_ENGINE K,
      SOURCE_PLUGIN_ENGINE K, NODRIVER_ENGINE K, GVISOR_ENGINE K]"

text \<open>\<^verbatim>\<open>std::round(x * 10.0) / 10.0\<close> of the quotient of a counter delta and the seconds.\<close>

definition rate_sec :: "uint64_t \<Rightarrow> double \<Rightarrow> double" where
  "rate_sec delta stats_snapshot_time_delta_sec =
     std_round (u64_to_double delta / stats_snapshot_time_delta_sec * 10) / 10"

definition get_metrics_output_fields_wrapper ::
  "header_consts \<Rightarrow> sinsp \<Rightarrow> collector \<Rightarrow> json_object \<Rightarrow> uint64_t \<Rightarrow> string \<Rightarrow> uint64_t \<Rightarrow>
   double \<Rightarrow> json_object \<times> collector" where
  "get_metrics_output_fields_wrapper K inspector c flds now src num_evts
       stats_snapshot_time_delta_sec =
     (let agent_info = get_agent_info inspector;
          machine_info = get_machine_info inspector;
          f = flds(''evt.time'' \<mapsto> JU64 now);
          f = f(''falco.version'' \<mapsto> JString (c_str (FALCO_VERSION K)));
          f = f(''falco.start_ts'' \<mapsto> JU64 (start_ts_epoch agent_info));
          f = f(''falco.duration_sec'' \<mapsto>
                  JU64 ((now - start_ts_epoch agent_info) div ONE_SECOND_IN_NS));
          f = f(''falco.kernel_release'' \<mapsto> JString (c_str (uname_r agent_info)));
          f = f(''falco.host_boot_ts'' \<mapsto> JU64 (boot_ts_epoch machine_info));
          f = f(''falco.hostname'' \<mapsto> JString (c_str (hostname machine_info)));
          f = f(''falco.host_num_cpus'' \<mapsto> JU32 (num_cpus machine_info));
          f = f(''falco.outputs_queue_num_drops'' \<mapsto>
                  JU64 (get_outputs_queue_num_drops inspector));
          f = f(''evt.source'' \<mapsto> JString src);
          f = (case find (check_current_engine inspector) (all_driver_engines K) of
                 None \<Rightarrow> f
               | Some engine \<Rightarrow> f(''scap.engine_name'' \<mapsto> JString (c_str engine)));
          f = (if m_last_num_evts c \<noteq> 0 \<and> stats_snapshot_time_delta_sec > 0
               then f(''falco.evts_rate_sec'' \<mapsto>
                        JDouble (rate_sec (num_evts - m_last_num_evts c)
                                   stats_snapshot_time_delta_sec))
               else f);
          f = f(''falco.num_evts'' \<mapsto> JU64 num_evts);
          f = f(''falco.num_evts_prev'' \<mapsto> JU64 (m_last_num_evts c))
      in (f, c\<lparr>m_last_num_evts := num_evts\<rparr>))"

subsection \<open>Engine and runtime counters\<close>

text \<open>The test \<^verbatim>\<open>name[0] == '\0'\<close> that ends both loops.\<close>

definition name_is_empty :: "scap_stats_v2 \<Rightarrow> bool" where
  "name_is_empty s = (case name s of [] \<Rightarrow> True | ch # _ \<Rightarrow> ch = NUL)"

definition metric_name :: "header_consts \<Rightarrow> string \<Rightarrow> scap_stats_v2 \<Rightarrow> string" where
  "metric_name K prefix s = strlcat prefix (name s) (STATS_NAME_MAX K)"

text \<open>The body of the first loop, after the test of the name.\<close>

definition sinsp_stat_fields ::
  "header_consts \<Rightarrow> falco_configuration \<Rightarrow> json_object \<Rightarrow> scap_stats_v2 \<Rightarrow> json_object" where
  "sinsp_stat_fields K config flds s =
     (let key = metric_name K ''falco.'' s;
          f = (if strncmp_eq (name s) ''n_fds'' 6 \<or> strncmp_eq (name s) ''n_threads'' 10
               then flds(key \<mapsto> JU64 (value_u64 s)) else flds)
      in case type s of
           STATS_VALUE_TYPE_U64 \<Rightarrow>
             if value_u64 s = 0 \<and> \<not> m_metrics_include_empty_values config then f
             else if m_metrics_convert_memory_to_mb config
             then
               (if strncmp_eq (name s) ''container_memory_used'' 22
                then f(key \<mapsto> JU64 (double_to_u64 (u64_to_double (value_u64 s) / 1024 / 1024)))
                else if strncmp_eq (name s) ''memory_'' 7
                then f(key \<mapsto> JU64 (double_to_u64 (u64_to_double (value_u64 s) / 1024)))
                else f(key \<mapsto> JU64 (value_u64 s)))
             else f(key \<mapsto> JU64 (value_u64 s))
         | STATS_VALUE_TYPE_U32 \<Rightarrow>
             if value_u32 s = 0 \<and> \<not> m_metrics_include_empty_values config then f
             else if m_metrics_convert_memory_to_mb config \<and> strncmp_eq (name s) ''memory_'' 7
             then f(key \<mapsto> JU32 (double_to_u32 (u32_to_double (value_u32 s) / 1024)))
             else f(key \<mapsto> JU32 (value_u32 s))
         | STATS_VALUE_TYPE_D \<Rightarrow>
             if value_d s = 0 \<and> \<not> m_metrics_include_empty_values config then f
             else f(key \<mapsto> JDouble (value_d s))
         | STATS_VALUE_TYPE_OTHER \<Rightarrow> f)"

fun sinsp_stats_loop ::
  "header_consts \<Rightarrow> falco_configuration \<Rightarrow> json_object \<Rightarrow> scap_stats_v2 list \<Rightarrow> json_object" where
  "sinsp_stats_loop K config flds [] = flds"
| "sinsp_stats_loop K config flds (s # ss) =
     (if name_is_empty s then flds
      else sinsp_stats_loop K config (sinsp_stat_fields K config flds s) ss)"

text \<open>The index the first loop starts at.\<close>

definition base_stat :: "header_consts \<Rightarrow> uint32_t \<Rightarrow> nat" where
  "base_stat K flags =
     (if flags AND PPM_SCAP_STATS_STATE_COUNTERS K \<noteq> 0 \<and>
         \<not> (flags AND PPM_SCAP_STATS_RESOURCE_UTILIZATION K \<noteq> 0)
      then SINSP_STATS_V2_N_THREADS K else 0)"

definition sinsp_stats_fields ::
  "header_consts \<Rightarrow> falco_configuration \<Rightarrow> sinsp \<Rightarrow> json_object \<Rightarrow> json_object" where
  "sinsp_stats_fields K config inspector flds =
     (let flags = m_metrics_flags config;
          q = get_sinsp_stats_v2 inspector flags
      in case snapshot q of
           None \<Rightarrow> flds
         | Some stats \<Rightarrow>
             if rc q = 0 \<and> nstats q > 0
             then sinsp_stats_loop K config flds (drop (base_stat K flags) stats)
             else flds)"

subsection \<open>Kernel-side counters\<close>

text \<open>
  The state of the second loop: the fields, the collector (for \<^verbatim>\<open>m_last_n_evts\<close> and
  \<^verbatim>\<open>m_last_n_drops\<close>) and the four locals declared before the loop.
\<close>

record scap_loop_state =
  l_fields :: json_object
  l_collector :: collector
  n_evts :: uint64_t
  n_drops :: uint64_t
  n_evts_delta :: uint64_t
  n_drops_delta :: uint64_t

text \<open>The value of a kernel-side rate field: the \<^verbatim>\<open>if\<close> and its \<^verbatim>\<open>else\<close>.\<close>

definition scap_rate :: "uint64_t \<Rightarrow> double \<Rightarrow> double" where
  "scap_rate delta stats_snapshot_time_delta_sec =
     (if delta \<noteq> 0 \<and> stats_snapshot_time_delta_sec > 0
      then rate_sec delta stats_snapshot_time_delta_sec else 0)"

text \<open>The body of the second loop, after the test of the name.\<close>

definition scap_stat_fields ::
  "header_consts \<Rightarrow> falco_configuration \<Rightarrow> double \<Rightarrow> scap_loop_state \<Rightarrow> scap_stats_v2 \<Rightarrow>
   scap_loop_state" where
  "scap_stat_fields K config stats_snapshot_time_delta_sec l s =
     (let key = metric_name K ''scap.'' s in
      case type s of
        STATS_VALUE_TYPE_U64 \<Rightarrow>
          (let l1 =
             (if strncmp_eq (name s) ''n_evts'' 7
              then
                (let v = value_u64 s;
                     c = l_collector l;
                     f = (l_fields l)(key \<mapsto> JU64 v);
                     f = f(''scap.n_evts_prev'' \<mapsto> JU64 (m_last_n_evts c));
                     delta = v - m_last_n_evts c;
                     f = f(''scap.evts_rate_sec'' \<mapsto>
                             JDouble (scap_rate delta stats_snapshot_time_delta_sec))
                 in l\<lparr>l_fields := f, l_collector := c\<lparr>m_last_n_evts := v\<rparr>,
                      n_evts := v, n_evts_delta := delta\<rparr>)
              else if strncmp_eq (name s) ''n_drops'' 8
              then
                (let v = value_u64 s;
                     c = l_collector l;
                     f = (l_fields l)(key \<mapsto> JU64 v);
                     f = f(''scap.n_drops_prev'' \<mapsto> JU64 (m_last_n_drops c));
                     delta = v - m_last_n_drops c;
                     f = f(''scap.evts_drop_rate_sec'' \<mapsto>
                             JDouble (scap_rate delta stats_snapshot_time_delta_sec))
                 in l\<lparr>l_fields := f, l_collector := c\<lparr>m_last_n_drops := v\<rparr>,
                      n_drops := v, n_drops_delta := delta\<rparr>)
              else l)
           in if value_u64 s = 0 \<and> \<not> m_metrics_include_empty_values config then l1
              else l1\<lparr>l_fields := (l_fields l1)(key \<mapsto> JU64 (value_u64 s))\<rparr>)
      | _ \<Rightarrow> l)"

fun scap_stats_loop ::
  "header_consts \<Rightarrow> falco_configuration \<Rightarrow> double \<Rightarrow> scap_loop_state \<Rightarrow> scap_stats_v2 list \<Rightarrow>
   scap_loop_state" where
  "scap_stats_loop K config dt l [] = l"
| "scap_stats_loop K config dt l (s # ss) =
     (if name_is_empty s then l
      else scap_stats_loop K config dt (scap_stat_fields K config dt l s) ss)"

text \<open>The drop percentage, computed after the loop from its locals.\<close>

definition n_drops_perc :: "scap_loop_state \<Rightarrow> double" where
  "n_drops_perc l =
     (if n_evts_delta l > 0
      then 100 * u64_to_double (n_drops_delta l) / u64_to_double (n_evts_delta l)
      else 0)"

text \<open>The flags of the second query: without a BPF engine the libbpf statistics are cleared.\<close>

definition capture_flags :: "header_consts \<Rightarrow> falco_configuration \<Rightarrow> sinsp \<Rightarrow> uint32_t" where
  "capture_flags K config inspector =
     (let flags = m_metrics_flags config
      in if \<not> (check_current_engine inspector (BPF_ENGINE K) \<or>
                 check_current_engine inspector (MODERN_BPF_ENGINE K))
         then flags AND NOT (PPM_SCAP_STATS_LIBBPF_STATS K) else flags)"

definition scap_stats_fields ::
  "header_consts \<Rightarrow> falco_configuration \<Rightarrow> sinsp \<Rightarrow> collector \<Rightarrow> json_object \<Rightarrow> double \<Rightarrow>
   json_object \<times> collector" where
  "scap_stats_fields K config inspector c flds stats_snapshot_time_delta_sec =
     (let q = get_capture_stats_v2 inspector (capture_flags K config inspector)
      in case snapshot q of
           None \<Rightarrow> (flds, c)
         | Some stats \<Rightarrow>
             if nstats q > 0 \<and> rc q = 0
             then
               (let l = scap_stats_loop K config stats_snapshot_time_delta_sec
                          \<lparr>l_fields = flds, l_collector = c, n_evts = 0, n_drops = 0,
                           n_evts_delta = 0, n_drops_delta = 0\<rparr> stats
                in ((l_fields l)(''scap.n_drops_perc'' \<mapsto> JDouble (n_drops_perc l)),
                    l_collector l))
             else (flds, c))"

definition get_metrics_output_fields_additional ::
  "header_consts \<Rightarrow> falco_configuration \<Rightarrow> sinsp \<Rightarrow> collector \<Rightarrow> json_object \<Rightarrow> double \<Rightarrow>
   string \<Rightarrow> json_object \<times> collector" where
  "get_metrics_output_fields_additional K config inspector c flds
       stats_snapshot_time_delta_sec src =
     (let f = sinsp_stats_fields K config inspector flds
      in if src \<noteq> syscall_source K then (f, c)
         else scap_stats_fields K config inspector c f stats_snapshot_time_delta_sec)"

subsection \<open>collect\<close>

text \<open>
  \<open>tick\<close> is the value of \<^verbatim>\<open>get_ticker\<close> and \<open>now\<close> the system clock in nanoseconds when
  \<^verbatim>\<open>collect\<close> reads them. The result is the collector and the writer after the call, or the
  exit of the process in \<^verbatim>\<open>push\<close>.
\<close>

definition collect ::
  "header_consts \<Rightarrow> falco_configuration \<Rightarrow> ticker_t \<Rightarrow> uint64_t \<Rightarrow> sinsp \<Rightarrow> string \<Rightarrow> uint64_t \<Rightarrow>
   collector \<times> stats_writer \<Rightarrow> (collector \<times> stats_writer) process" where
  "collect K config tick now inspector src num_evts cw =
     (let c = fst cw; w = snd cw in
      if has_output w
      then
        (if tick \<noteq> m_last_tick c
         then
           (let c = c\<lparr>m_last_tick := tick\<rparr>;
                stats_snapshot_time_delta = (if m_last_now c \<noteq> 0 then now - m_last_now c else 0);
                c = c\<lparr>m_last_now := now\<rparr>;
                stats_snapshot_time_delta_sec =
                  u64_to_double stats_snapshot_time_delta / u64_to_double ONE_SECOND_IN_NS;
                (f, c) = get_metrics_output_fields_wrapper K inspector c Map.empty now src
                           num_evts stats_snapshot_time_delta_sec;
                (f, c) = get_metrics_output_fields_additional K config inspector c f
                           stats_snapshot_time_delta_sec src;
                m = \<lparr>stop = False, ts = now, source = src, output_fields = f\<rparr>
            in case push config w m of
                 Exited line status \<Rightarrow> Exited line status
               | Running w' \<Rightarrow> Running (c, w'))
         else Running (c, w))
      else Running (c, w))"

text \<open>
  The calls of \<^verbatim>\<open>collect\<close> that one collector makes, one after the other, while the ticker
  reads the same value \<open>tick\<close>. Each call has its own clock reading, inspector, source and
  event count. The calls end when the process exits.
\<close>

record collect_args =
  arg_now :: uint64_t
  arg_inspector :: sinsp
  arg_src :: string
  arg_num_evts :: uint64_t

fun collect_calls ::
  "header_consts \<Rightarrow> falco_configuration \<Rightarrow> ticker_t \<Rightarrow> collect_args list \<Rightarrow>
   collector \<times> stats_writer \<Rightarrow> (collector \<times> stats_writer) process" where
  "collect_calls K config tick [] cw = Running cw"
| "collect_calls K config tick (a # as) cw =
     (case collect K config tick (arg_now a) (arg_inspector a) (arg_src a) (arg_num_evts a) cw of
        Exited line status \<Rightarrow> Exited line status
      | Running cw' \<Rightarrow> collect_calls K config tick as cw')"

section \<open>Example inputs\<close>

definition example_config :: falco_configuration where
  "example_config =
     \<lparr>m_metrics_enabled = True, m_metrics_output_file = ''/tmp/falco_metrics.json'',
      m_metrics_stats_rule_enabled = True, m_outputs_queue_capacity = 2, m_metrics_flags = 8,
      m_metrics_include_empty_values = False, m_metrics_convert_memory_to_mb = True\<rparr>"

definition example_msg :: "uint64_t \<Rightarrow> msg" where
  "example_msg t = \<lparr>stop = False, ts = t, source = ''syscall'', output_fields = Map.empty\<rparr>"

definition stop_msg :: msg where
  "stop_msg = \<lparr>stop = True, ts = 0, source = [], output_fields = Map.empty\<rparr>"

definition example_delivery ::
  "msg \<Rightarrow> ticker_t \<Rightarrow> string option \<Rightarrow> string option \<Rightarrow> delivery" where
  "example_delivery m tick e1 e2 =
     \<lparr>popped = m, ticker = tick, handle_msg_throws = e1, file_write_throws = e2\<rparr>"

definition example_worker_state :: worker_state where
  "example_worker_state =
     \<lparr>last_tick = 0, first_tick = 0, m_total_samples = 0, handled = [], m_file_output = [],
      logged = []\<rparr>"

text \<open>
  Values for the constants of the headers: engine names, a name length of 512, the four
  flag bits of the counter categories and 9 resource-utilisation counters ahead of
  \<^verbatim>\<open>n_threads\<close> in the engine list.
\<close>

definition example_consts :: header_consts where
  "example_consts =
     \<lparr>FALCO_VERSION = ''0.37.0'', BPF_ENGINE = ''bpf'', KMOD_ENGINE = ''kmod'',
      MODERN_BPF_ENGINE = ''modern_bpf'', SOURCE_PLUGIN_ENGINE = ''source_plugin'',
      NODRIVER_ENGINE = ''nodriver'', GVISOR_ENGINE = ''gvisor'', STATS_NAME_MAX = 512,
      PPM_SCAP_STATS_STATE_COUNTERS = 8, PPM_SCAP_STATS_RESOURCE_UTILIZATION = 4,
      PPM_SCAP_STATS_LIBBPF_STATS = 2, SINSP_STATS_V2_N_THREADS = 9,
      syscall_source = ''syscall''\<rparr>"

definition u64_stat :: "string \<Rightarrow> uint64_t \<Rightarrow> scap_stats_v2" where
  "u64_stat n v =
     \<lparr>name = n, type = STATS_VALUE_TYPE_U64, value_u64 = v, value_u32 = 0, value_d = 0\<rparr>"

definition u32_stat :: "string \<Rightarrow> uint32_t \<Rightarrow> scap_stats_v2" where
  "u32_stat n v =
     \<lparr>name = n, type = STATS_VALUE_TYPE_U32, value_u64 = 0, value_u32 = v, value_d = 0\<rparr>"

definition d_stat :: "string \<Rightarrow> double \<Rightarrow> scap_stats_v2" where
  "d_stat n v =
     \<lparr>name = n, type = STATS_VALUE_TYPE_D, value_u64 = 0, value_u32 = 0, value_d = v\<rparr>"

text \<open>An entry of a zeroed buffer that the query has not filled in.\<close>

definition unset_stat :: scap_stats_v2 where
  "unset_stat =
     \<lparr>name = [], type = STATS_VALUE_TYPE_OTHER, value_u64 = 0, value_u32 = 0, value_d = 0\<rparr>"

text \<open>
  The engine list when only the state counters are selected (flags 8): the nine entries
  of the resource-utilisation counters are not filled in, the state counters follow.
\<close>

definition state_counters_only :: "scap_stats_v2 list" where
  "state_counters_only =
     replicate 9 unset_stat @ [u64_stat ''n_threads'' 5, u64_stat ''n_added_fds'' 7]"

definition example_kernel_counters :: "scap_stats_v2 list" where
  "example_kernel_counters =
     [u64_stat ''n_evts'' 150, u64_stat ''n_drops_buffer_total'' 0, u64_stat ''n_drops'' 10]"

definition example_inspector :: "scap_stats_v2 list \<Rightarrow> scap_stats_v2 list \<Rightarrow> sinsp" where
  "example_inspector engine_stats kernel_stats =
     \<lparr>get_agent_info = \<lparr>start_ts_epoch = 1000000000, uname_r = ''6.1.0''\<rparr>,
      get_machine_info = \<lparr>boot_ts_epoch = 500000000, hostname = ''node1'', num_cpus = 8\<rparr>,
      check_current_engine = (\<lambda>e. e = ''modern_bpf''),
      get_sinsp_stats_v2 = (\<lambda>flags. \<lparr>snapshot = Some engine_stats, rc = 0\<rparr>),
      get_capture_stats_v2 = (\<lambda>flags. \<lparr>snapshot = Some kernel_stats, rc = 0\<rparr>),
      get_outputs_queue_num_drops = 0\<rparr>"

text \<open>The configuration with every counter category selected.\<close>

definition all_counters_config :: falco_configuration where
  "all_counters_config = example_config\<lparr>m_metrics_flags := 15\<rparr>"

text \<open>A collector whose members are all zero, and one that has sampled before.\<close>

definition zero_collector :: collector where
  "zero_collector =
     \<lparr>m_last_tick = 0, m_last_now = 0, m_last_num_evts = 0, m_last_n_evts = 0,
      m_last_n_drops = 0\<rparr>"

definition example_collector :: collector where
  "example_collector =
     \<lparr>m_last_tick = 1, m_last_now = 5000000000, m_last_num_evts = 100, m_last_n_evts = 100,
      m_last_n_drops = 4\<rparr>"

definition example_loop_state :: scap_loop_state where
  "example_loop_state =
     \<lparr>l_fields = Map.empty, l_collector = example_collector, n_evts = 0, n_drops = 0,
      n_evts_delta = 0, n_drops_delta = 0\<rparr>"

text \<open>A call of \<^verbatim>\<open>collect\<close> for the syscall source at the time \<open>t\<close> with \<open>n\<close> events.\<close>

definition example_call :: "uint64_t \<Rightarrow> uint64_t \<Rightarrow> collect_args" where
  "example_call t n =
     \<lparr>arg_now = t, arg_inspector = example_inspector [] example_kernel_counters,
      arg_src = ''syscall'', arg_num_evts = n\<rparr>"

text \<open>The configuration with metrics disabled: the writer has no output.\<close>

definition metrics_off_config :: falco_configuration where
  "metrics_off_config = example_config\<lparr>m_metrics_enabled := False\<rparr>"

section \<open>The bounded queue: push\<close>

text \<open>
  Claim C7. \<^verbatim>\<open>push\<close> always returns one of two results, whatever the message: when the
  queue is below its capacity the message is enqueued behind the messages already there
  and the process runs on; when the queue is at capacity the process exits with the fatal
  line on stderr and the status \<^verbatim>\<open>EXIT_FAILURE\<close>. No third result exists, so no message is
  dropped while the process runs on.
\<close>

theorem push_enqueues_or_exits:
  "push config w m =
     (if length (m_queue w) < m_outputs_queue_capacity config
      then Running (w\<lparr>m_queue := m_queue w @ [m]\<rparr>)
      else Exited (''Fatal error: Stats queue reached maximum capacity. Exiting.'' @ [CHR 0x0A])
             EXIT_FAILURE)"
  by (simp add: push_def try_push_def)

theorem push_enqueues_or_exits_witness:
  "push example_config \<lparr>m_initialized = True, m_queue = [example_msg 1]\<rparr> (example_msg 2) =
     Running \<lparr>m_initialized = True, m_queue = [example_msg 1, example_msg 2]\<rparr> \<and>
   push example_config \<lparr>m_initialized = True, m_queue = [example_msg 1, example_msg 2]\<rparr>
       (example_msg 3) =
     Exited (''Fatal error: Stats queue reached maximum capacity. Exiting.'' @ [CHR 0x0A])
       EXIT_FAILURE"
  using push_enqueues_or_exits [of example_config
          "\<lparr>m_initialized = True, m_queue = [example_msg 1]\<rparr>" "example_msg 2"]
        push_enqueues_or_exits [of example_config
          "\<lparr>m_initialized = True, m_queue = [example_msg 1, example_msg 2]\<rparr>" "example_msg 3"]
  by (simp add: example_config_def)

section \<open>The worker: completed intervals and sink exceptions\<close>

lemma dispatch_Inr_frame:
  "dispatch config st d = Inr st' \<Longrightarrow>
     last_tick st' = last_tick st \<and> first_tick st' = first_tick st \<and>
     m_total_samples st' = m_total_samples st \<and> logged st' = logged st"
  by (auto simp: dispatch_def Let_def split: if_splits option.splits)

lemma dispatch_Inl_frame:
  "dispatch config st d = Inl (what, st') \<Longrightarrow>
     last_tick st' = last_tick st \<and> first_tick st' = first_tick st \<and>
     m_total_samples st' = m_total_samples st \<and> logged st' = logged st \<and>
     m_file_output st' = m_file_output st"
  by (auto simp: dispatch_def Let_def split: if_splits option.splits)

lemma worker_body_step:
  assumes "\<not> stop (popped d)"
  shows "\<exists>st'. worker_body config st d = Some st' \<and>
           first_tick st' = first_tick st \<and>
           last_tick st' = (if ticker d = first_tick st then last_tick st else ticker d) \<and>
           m_total_samples st' =
             m_total_samples st +
               (if ticker d \<noteq> first_tick st \<and> ticker d \<noteq> last_tick st then 1 else 0) \<and>
           (ticker d = first_tick st \<longrightarrow> st' = st)"
proof (cases "ticker d = first_tick st")
  case True
  with assms show ?thesis by (simp add: worker_body_def)
next
  case False
  define st2 where "st2 = (if last_tick st \<noteq> ticker d
      then st\<lparr>m_total_samples := m_total_samples st + 1\<rparr> else st)\<lparr>last_tick := ticker d\<rparr>"
  show ?thesis
  proof (cases "dispatch config st2 d")
    case (Inl e)
    obtain what st3 where e: "e = (what, st3)" by (cases e)
    from dispatch_Inl_frame [OF Inl [unfolded e]] assms False Inl e show ?thesis
      by (auto simp: worker_body_def Let_def st2_def)
  next
    case (Inr st3)
    from dispatch_Inr_frame [OF Inr] assms False Inr show ?thesis
      by (auto simp: worker_body_def Let_def st2_def)
  qed
qed

text \<open>
  Claim C2. Take any run of snapshot messages the worker pops while the ticker reads the
  same value \<open>t\<close>, from any state of the worker. If \<open>t\<close> is the first tick (the value the
  worker read when it started), the state of the worker is unchanged at the end: nothing
  is counted and nothing is emitted. Otherwise \<^verbatim>\<open>m_total_samples\<close> has grown by exactly 1
  if \<open>t\<close> differs from the last tick processed, and by 0 if it equals it, however many
  messages the run has; \<open>t\<close> is then the last tick processed. The claim's two clauses
  disagree when the ticker has wrapped around to the first tick again; there the first
  clause (never on the first tick) is what the worker does.
\<close>

theorem completed_intervals_counter:
  assumes "list_all (\<lambda>d. \<not> stop (popped d) \<and> ticker d = t) ds"
  shows "\<exists>st'. worker_loop config st ds = Blocked st' \<and>
           (t = first_tick st \<longrightarrow> st' = st) \<and>
           first_tick st' = first_tick st \<and>
           last_tick st' = (if ds = [] \<or> t = first_tick st then last_tick st else t) \<and>
           m_total_samples st' =
             m_total_samples st +
               (if ds \<noteq> [] \<and> t \<noteq> first_tick st \<and> t \<noteq> last_tick st then 1 else 0)"
  using assms
proof (induction ds arbitrary: st)
  case Nil
  then show ?case by simp
next
  case (Cons d ds)
  from Cons.prems have d: "\<not> stop (popped d)" "ticker d = t" by simp_all
  from worker_body_step [OF d(1), of config st] d(2)
  obtain st1 where st1: "worker_body config st d = Some st1"
      "first_tick st1 = first_tick st"
      "last_tick st1 = (if t = first_tick st then last_tick st else t)"
      "m_total_samples st1 =
         m_total_samples st + (if t \<noteq> first_tick st \<and> t \<noteq> last_tick st then 1 else 0)"
      "t = first_tick st \<longrightarrow> st1 = st"
    by auto
  from Cons.prems have "list_all (\<lambda>d. \<not> stop (popped d) \<and> ticker d = t) ds" by simp
  from Cons.IH [OF this, of st1]
  obtain st' where st': "worker_loop config st1 ds = Blocked st'"
      "t = first_tick st1 \<longrightarrow> st' = st1"
      "first_tick st' = first_tick st1"
      "last_tick st' = (if ds = [] \<or> t = first_tick st1 then last_tick st1 else t)"
      "m_total_samples st' =
         m_total_samples st1 +
           (if ds \<noteq> [] \<and> t \<noteq> first_tick st1 \<and> t \<noteq> last_tick st1 then 1 else 0)"
    by auto
  have "worker_loop config st (d # ds) = Blocked st'"
    using st1(1) st'(1) by simp
  moreover have "t = first_tick st \<longrightarrow> st' = st"
    using st1 st' by auto
  moreover have "first_tick st' = first_tick st"
    using st1 st' by simp
  moreover have "last_tick st' = (if t = first_tick st then last_tick st else t)"
    using st1 st' by (auto split: if_splits)
  moreover have "m_total_samples st' =
      m_total_samples st + (if t \<noteq> first_tick st \<and> t \<noteq> last_tick st then 1 else 0)"
    using st1 st' by (auto split: if_splits)
  ultimately show ?case by auto
qed

theorem completed_intervals_counter_witness:
  "list_all (\<lambda>d. \<not> stop (popped d) \<and> ticker d = 1)
     [example_delivery (example_msg 10) 1 None None,
      example_delivery (example_msg 11) 1 None None,
      example_delivery (example_msg 12) 1 None None] \<and>
   (\<exists>st'. worker_loop example_config example_worker_state
            [example_delivery (example_msg 10) 1 None None,
             example_delivery (example_msg 11) 1 None None,
             example_delivery (example_msg 12) 1 None None] = Blocked st' \<and>
          m_total_samples st' = 1 \<and> last_tick st' = 1)"
proof -
  have h: "list_all (\<lambda>d. \<not> stop (popped d) \<and> ticker d = 1)
     [example_delivery (example_msg 10) 1 None None,
      example_delivery (example_msg 11) 1 None None,
      example_delivery (example_msg 12) 1 None None]"
    by (simp add: example_delivery_def example_msg_def)
  from completed_intervals_counter [OF h, of example_config example_worker_state] h
  show ?thesis by (auto simp: example_worker_state_def simp del: worker_loop.simps)
qed

text \<open>
  Claim C8. A stop message makes the worker return in the state it has: nothing of the
  message is dispatched and no later message is read. For any other message the body of
  the loop ends in a state and the loop goes on with the next delivery, whatever the sinks
  do. When the message is dispatched (the tick is not the first tick) and
  \<^verbatim>\<open>handle_msg\<close> throws, or \<^verbatim>\<open>handle_msg\<close> is not called or returns and the write to the file
  throws, the exception's \<^verbatim>\<open>what()\<close> is logged in one line and no line is added to the file.
\<close>

theorem worker_catches_sink_exceptions:
  "(stop (popped d) \<longrightarrow> worker_loop config st (d # ds) = Returned st) \<and>
   (\<not> stop (popped d) \<longrightarrow>
      (\<exists>st'. worker_body config st d = Some st' \<and>
             worker_loop config st (d # ds) = worker_loop config st' ds \<and>
             (first_tick st \<noteq> ticker d \<and>
              ((m_metrics_stats_rule_enabled config \<and> handle_msg_throws d = Some what) \<or>
               ((m_metrics_stats_rule_enabled config \<longrightarrow> handle_msg_throws d = None) \<and>
                m_metrics_output_file config \<noteq> [] \<and> file_write_throws d = Some what)) \<longrightarrow>
              logged st' = logged st @ [''stats_writer (worker): '' @ what @ [CHR 0x0A]] \<and>
              m_file_output st' = m_file_output st)))"
proof (cases "stop (popped d)")
  case True
  then show ?thesis by (simp add: worker_body_def)
next
  case False
  from worker_body_step [OF False, of config st]
  obtain st' where st': "worker_body config st d = Some st'" by blast
  have loop: "worker_loop config st (d # ds) = worker_loop config st' ds"
    using st' by simp
  have "logged st' = logged st @ [''stats_writer (worker): '' @ what @ [CHR 0x0A]] \<and>
        m_file_output st' = m_file_output st"
    if "first_tick st \<noteq> ticker d"
      and "(m_metrics_stats_rule_enabled config \<and> handle_msg_throws d = Some what) \<or>
           ((m_metrics_stats_rule_enabled config \<longrightarrow> handle_msg_throws d = None) \<and>
            m_metrics_output_file config \<noteq> [] \<and> file_write_throws d = Some what)"
    using that st' False
    by (auto simp: worker_body_def dispatch_def Let_def split: if_splits)
  with False st' loop show ?thesis by blast
qed

theorem worker_catches_sink_exceptions_witness:
  "worker_loop example_config example_worker_state
     [example_delivery (example_msg 10) 1 (Some ''queue closed'') None,
      example_delivery (example_msg 11) 2 None (Some ''basic_ios::clear''),
      example_delivery (example_msg 12) 3 None None,
      example_delivery stop_msg 4 None None,
      example_delivery (example_msg 13) 4 None None] =
   Returned
     \<lparr>last_tick = 3, first_tick = 0, m_total_samples = 3,
      handled =
        [(11, ''Falco metrics snapshot'', ''Falco internal: metrics snapshot'', Map.empty),
         (12, ''Falco metrics snapshot'', ''Falco internal: metrics snapshot'', Map.empty)],
      m_file_output = [(3, Map.empty)],
      logged =
        [''stats_writer (worker): queue closed'' @ [CHR 0x0A],
         ''stats_writer (worker): basic_ios::clear'' @ [CHR 0x0A]]\<rparr>"
proof -
  define d1 where "d1 = example_delivery (example_msg 10) 1 (Some ''queue closed'') None"
  define d2 where "d2 = example_delivery (example_msg 11) 2 None (Some ''basic_ios::clear'')"
  define d3 where "d3 = example_delivery (example_msg 12) 3 None None"
  define d4 where "d4 = example_delivery stop_msg 4 None None"
  define d5 where "d5 = example_delivery (example_msg 13) 4 None None"
  note ds = d1_def d2_def d3_def d4_def d5_def
  note ex = example_delivery_def example_msg_def stop_msg_def example_config_def
    example_worker_state_def
  define s0 where "s0 = example_worker_state"
  obtain s1 where s1: "worker_body example_config s0 d1 = Some s1"
      "worker_loop example_config s0 (d1 # [d2, d3, d4, d5]) =
       worker_loop example_config s1 [d2, d3, d4, d5]"
    using worker_catches_sink_exceptions [of d1 example_config s0 "[d2, d3, d4, d5]"]
    by (auto simp: ds ex)
  have v1: "s1 = \<lparr>last_tick = 1, first_tick = 0, m_total_samples = 1, handled = [],
      m_file_output = [], logged = [''stats_writer (worker): queue closed'' @ [CHR 0x0A]]\<rparr>"
    using s1(1) by (simp add: worker_body_def dispatch_def Let_def ds ex s0_def)
  obtain s2 where s2: "worker_body example_config s1 d2 = Some s2"
      "worker_loop example_config s1 (d2 # [d3, d4, d5]) =
       worker_loop example_config s2 [d3, d4, d5]"
    using worker_catches_sink_exceptions [of d2 example_config s1 "[d3, d4, d5]"]
    by (auto simp: ds ex)
  have v2: "s2 = \<lparr>last_tick = 2, first_tick = 0, m_total_samples = 2,
      handled =
        [(11, ''Falco metrics snapshot'', ''Falco internal: metrics snapshot'', Map.empty)],
      m_file_output = [],
      logged = [''stats_writer (worker): queue closed'' @ [CHR 0x0A],
                ''stats_writer (worker): basic_ios::clear'' @ [CHR 0x0A]]\<rparr>"
    using s2(1) by (simp add: worker_body_def dispatch_def Let_def ds ex v1)
  obtain s3 where s3: "worker_body example_config s2 d3 = Some s3"
      "worker_loop example_config s2 (d3 # [d4, d5]) = worker_loop example_config s3 [d4, d5]"
    using worker_catches_sink_exceptions [of d3 example_config s2 "[d4, d5]"]
    by (auto simp: ds ex)
  have v3: "s3 = \<lparr>last_tick = 3, first_tick = 0, m_total_samples = 3,
      handled =
        [(11, ''Falco metrics snapshot'', ''Falco internal: metrics snapshot'', Map.empty),
         (12, ''Falco metrics snapshot'', ''Falco internal: metrics snapshot'', Map.empty)],
      m_file_output = [(3, Map.empty)],
      logged = [''stats_writer (worker): queue closed'' @ [CHR 0x0A],
                ''stats_writer (worker): basic_ios::clear'' @ [CHR 0x0A]]\<rparr>"
    using s3(1) by (simp add: worker_body_def dispatch_def Let_def ds ex v2)
  have "worker_loop example_config s3 (d4 # [d5]) = Returned s3"
    using worker_catches_sink_exceptions [of d4 example_config s3 "[d5]"]
    by (simp add: ds ex)
  with s1(2) s2(2) s3(2) show ?thesis
    unfolding ds [symmetric] s0_def [symmetric] v3 [symmetric] by simp
qed

section \<open>C strings and names\<close>

lemma c_str_literal [simp]: "NUL \<notin> set s \<Longrightarrow> c_str s = s"
  by (auto simp: c_str_def)

lemma c_str_no_NUL: "NUL \<notin> set (c_str s)"
  by (auto simp: c_str_def dest: set_takeWhileD)

lemma name_is_empty_iff: "name_is_empty s \<longleftrightarrow> c_str (name s) = []"
  by (cases "name s") (auto simp: name_is_empty_def c_str_def)

text \<open>A comparison over more characters than the literal has is equality of the strings.\<close>

lemma strncmp_eq_exact:
  assumes "NUL \<notin> set lit" and "length lit < n"
  shows "strncmp_eq a lit n \<longleftrightarrow> c_str a = lit"
proof
  assume "c_str a = lit"
  then show "strncmp_eq a lit n"
    using assms by (simp add: strncmp_eq_def)
next
  assume eq: "strncmp_eq a lit n"
  from assms have lit: "take n (c_str lit @ [NUL]) = lit @ [NUL]" by simp
  with eq have t: "take n (c_str a @ [NUL]) = lit @ [NUL]" by (simp add: strncmp_eq_def)
  show "c_str a = lit"
  proof (cases "length (c_str a) < n")
    case True
    then have "take n (c_str a @ [NUL]) = c_str a @ [NUL]" by simp
    with t show ?thesis by simp
  next
    case False
    then have "take n (c_str a @ [NUL]) = take n (c_str a)" by simp
    with t have "set (lit @ [NUL]) = set (take n (c_str a))" by simp
    then have "NUL \<in> set (take n (c_str a))" by auto
    then have "NUL \<in> set (c_str a)" by (rule in_set_takeD)
    with c_str_no_NUL show ?thesis by blast
  qed
qed


lemma is_n_fds: "strncmp_eq a ''n_fds'' 6 \<longleftrightarrow> c_str a = ''n_fds''"
  by (rule strncmp_eq_exact) (simp_all add: NUL_def)

lemma is_n_threads: "strncmp_eq a ''n_threads'' 10 \<longleftrightarrow> c_str a = ''n_threads''"
  by (rule strncmp_eq_exact) (simp_all add: NUL_def)


lemma is_n_evts: "strncmp_eq a ''n_evts'' 7 \<longleftrightarrow> c_str a = ''n_evts''"
  by (rule strncmp_eq_exact) (simp_all add: NUL_def)

lemma is_n_drops: "strncmp_eq a ''n_drops'' 8 \<longleftrightarrow> c_str a = ''n_drops''"
  by (rule strncmp_eq_exact) (simp_all add: NUL_def)


section \<open>Where the loops over the counter lists start and stop\<close>

lemma sinsp_stats_loop_foldl:
  "sinsp_stats_loop K config flds stats =
     foldl (sinsp_stat_fields K config) flds (takeWhile (\<lambda>s. \<not> name_is_empty s) stats)"
  by (induction stats arbitrary: flds) simp_all

lemma scap_stats_loop_foldl:
  "scap_stats_loop K config dt l stats =
     foldl (scap_stat_fields K config dt) l (takeWhile (\<lambda>s. \<not> name_is_empty s) stats)"
  by (induction stats arbitrary: l) simp_all

text \<open>
  Claim C10, as the code has it. When a query returns a non-empty list and the code 0,
  the loop over the kernel-side list runs the body on the entries before the first entry
  with an empty name, in order, and on no other entry. The loop over the engine list
  leaves out the first \<open>base_stat\<close> entries, whatever their names, and runs the body on the
  entries from there up to the first entry with an empty name at or after that index.
\<close>

theorem loops_stop_at_empty_name:
  assumes "get_sinsp_stats_v2 inspector (m_metrics_flags config) =
             \<lparr>snapshot = Some stats, rc = 0\<rparr>"
    and "stats \<noteq> []"
    and "get_capture_stats_v2 inspector (capture_flags K config inspector) =
           \<lparr>snapshot = Some kstats, rc = 0\<rparr>"
    and "kstats \<noteq> []"
  shows "sinsp_stats_fields K config inspector flds =
           foldl (sinsp_stat_fields K config) flds
             (takeWhile (\<lambda>s. \<not> name_is_empty s)
                (drop (base_stat K (m_metrics_flags config)) stats)) \<and>
         scap_stats_fields K config inspector c flds dt =
           (let l = foldl (scap_stat_fields K config dt)
                      \<lparr>l_fields = flds, l_collector = c, n_evts = 0, n_drops = 0,
                       n_evts_delta = 0, n_drops_delta = 0\<rparr>
                      (takeWhile (\<lambda>s. \<not> name_is_empty s) kstats)
            in ((l_fields l)(''scap.n_drops_perc'' \<mapsto> JDouble (n_drops_perc l)),
                l_collector l))"
  using assms
  by (simp add: sinsp_stats_fields_def scap_stats_fields_def nstats_def Let_def
      sinsp_stats_loop_foldl scap_stats_loop_foldl)

lemmas example_defs =
  example_consts_def example_config_def example_inspector_def u64_stat_def u32_stat_def
  d_stat_def unset_stat_def state_counters_only_def example_kernel_counters_def
  all_counters_config_def zero_collector_def example_collector_def example_loop_state_def

lemmas name_simps =
  name_is_empty_def metric_name_def strlcat_def strncmp_eq_def c_str_def NUL_def

theorem loops_stop_at_empty_name_witness:
  "get_sinsp_stats_v2 (example_inspector state_counters_only
       (example_kernel_counters @ [unset_stat, u64_stat ''n_late'' 3]))
     (m_metrics_flags example_config) = \<lparr>snapshot = Some state_counters_only, rc = 0\<rparr> \<and>
   state_counters_only \<noteq> [] \<and>
   get_capture_stats_v2 (example_inspector state_counters_only
       (example_kernel_counters @ [unset_stat, u64_stat ''n_late'' 3]))
     (capture_flags example_consts example_config
        (example_inspector state_counters_only
           (example_kernel_counters @ [unset_stat, u64_stat ''n_late'' 3]))) =
     \<lparr>snapshot = Some (example_kernel_counters @ [unset_stat, u64_stat ''n_late'' 3]), rc = 0\<rparr> \<and>
   example_kernel_counters @ [unset_stat, u64_stat ''n_late'' 3] \<noteq> [] \<and>
   sinsp_stats_fields example_consts example_config
     (example_inspector state_counters_only
        (example_kernel_counters @ [unset_stat, u64_stat ''n_late'' 3])) Map.empty =
     foldl (sinsp_stat_fields example_consts example_config) Map.empty
       [u64_stat ''n_threads'' 5, u64_stat ''n_added_fds'' 7] \<and>
   fst (scap_stats_fields example_consts example_config
     (example_inspector state_counters_only
        (example_kernel_counters @ [unset_stat, u64_stat ''n_late'' 3]))
     \<lparr>m_last_tick = 0, m_last_now = 0, m_last_num_evts = 0, m_last_n_evts = 100,
      m_last_n_drops = 0\<rparr> Map.empty 1) ''scap.n_late'' = None"
proof -
  define insp where "insp = example_inspector state_counters_only
       (example_kernel_counters @ [unset_stat, u64_stat ''n_late'' 3])"
  define c where "c = \<lparr>m_last_tick = 0, m_last_now = 0, m_last_num_evts = 0,
      m_last_n_evts = 100, m_last_n_drops = 0\<rparr>"
  have h1: "get_sinsp_stats_v2 insp (m_metrics_flags example_config) =
      \<lparr>snapshot = Some state_counters_only, rc = 0\<rparr>"
    by (simp add: insp_def example_inspector_def)
  have h2: "state_counters_only \<noteq> []"
    by (simp add: state_counters_only_def)
  have h3: "get_capture_stats_v2 insp (capture_flags example_consts example_config insp) =
      \<lparr>snapshot = Some (example_kernel_counters @ [unset_stat, u64_stat ''n_late'' 3]), rc = 0\<rparr>"
    by (simp add: insp_def example_inspector_def)
  have h4: "example_kernel_counters @ [unset_stat, u64_stat ''n_late'' 3] \<noteq> []"
    by simp
  have b: "base_stat example_consts (m_metrics_flags example_config) = 9"
    by (simp add: base_stat_def example_consts_def example_config_def)
  have t1: "takeWhile (\<lambda>s. \<not> name_is_empty s) (drop 9 state_counters_only) =
      [u64_stat ''n_threads'' 5, u64_stat ''n_added_fds'' 7]"
    by (simp add: state_counters_only_def u64_stat_def name_is_empty_def NUL_def)
  have t2: "takeWhile (\<lambda>s. \<not> name_is_empty s)
        (example_kernel_counters @ [unset_stat, u64_stat ''n_late'' 3]) =
      example_kernel_counters"
    by (simp add: example_kernel_counters_def u64_stat_def unset_stat_def name_is_empty_def
        NUL_def)
  note inst = loops_stop_at_empty_name [OF h1 h2 h3 h4, of Map.empty c 1, unfolded b t1 t2]
  have k: "fst (scap_stats_fields example_consts example_config insp c Map.empty 1)
      ''scap.n_late'' = None"
    unfolding inst [THEN conjunct2]
    by (simp add: Let_def example_kernel_counters_def u64_stat_def scap_stat_fields_def
        name_simps example_consts_def example_config_def)
  from h1 h2 h3 h4 inst [THEN conjunct1] k show ?thesis
    unfolding insp_def c_def by simp
qed

text \<open>
  With only the state counters selected, the first entry of the engine list has an empty
  name and the entries at the indexes 9 and 10 are reported all the same.
\<close>

theorem entry_after_empty_name_is_reported:
  "name_is_empty (state_counters_only ! 0) \<and>
   state_counters_only ! 9 = u64_stat ''n_threads'' 5 \<and>
   sinsp_stats_fields example_consts example_config
     (example_inspector state_counters_only example_kernel_counters) Map.empty
     ''falco.n_threads'' = Some (JU64 5)"
proof -
  have "state_counters_only ! 9 = u64_stat ''n_threads'' 5"
    by (simp add: state_counters_only_def nth_append)
  moreover have "name_is_empty (state_counters_only ! 0)"
    by (simp add: state_counters_only_def unset_stat_def name_is_empty_def nth_append)
  moreover have "base_stat example_consts (m_metrics_flags example_config) = 9"
    by (simp add: base_stat_def example_consts_def example_config_def)
  then have "sinsp_stats_fields example_consts example_config
     (example_inspector state_counters_only example_kernel_counters) Map.empty
     ''falco.n_threads'' = Some (JU64 5)"
    by (simp add: sinsp_stats_fields_def Let_def nstats_def example_inspector_def
        state_counters_only_def u64_stat_def sinsp_stat_fields_def name_simps
        example_consts_def example_config_def)
  ultimately show ?thesis by simp
qed

section \<open>Engine and runtime counters: zero suppression and memory units\<close>







lemma double_to_u64_0 [simp]: "double_to_u64 0 = 0"
  by (simp add: double_to_u64_def c_trunc_def)

lemma double_to_u32_0 [simp]: "double_to_u32 0 = 0"
  by (simp add: double_to_u32_def c_trunc_def)

lemma u64_to_double_0 [simp]: "u64_to_double 0 = 0"
  by (simp add: u64_to_double_def)

lemma u32_to_double_0 [simp]: "u32_to_double 0 = 0"
  by (simp add: u32_to_double_def)

lemma scap_key_n_evts:
  assumes "c_str (name s) = ''n_evts''"
  shows "metric_name K ''scap.'' s \<noteq> ''scap.n_evts_prev''"
    and "metric_name K ''scap.'' s \<noteq> ''scap.evts_rate_sec''"
proof -
  have "length (metric_name K ''scap.'' s) \<le> 11"
    using assms by (simp add: metric_name_def strlcat_def NUL_def)
  then show "metric_name K ''scap.'' s \<noteq> ''scap.n_evts_prev''"
    and "metric_name K ''scap.'' s \<noteq> ''scap.evts_rate_sec''"
    by auto
qed

lemma scap_key_n_drops:
  assumes "c_str (name s) = ''n_drops''"
  shows "metric_name K ''scap.'' s \<noteq> ''scap.n_drops_prev''"
    and "metric_name K ''scap.'' s \<noteq> ''scap.evts_drop_rate_sec''"
proof -
  have "length (metric_name K ''scap.'' s) \<le> 12"
    using assms by (simp add: metric_name_def strlcat_def NUL_def)
  then show "metric_name K ''scap.'' s \<noteq> ''scap.n_drops_prev''"
    and "metric_name K ''scap.'' s \<noteq> ''scap.evts_drop_rate_sec''"
    by auto
qed

text \<open>
  Claim C6, as the code has it. In the loop over the engine list, an entry named
  \<^verbatim>\<open>n_fds\<close> or \<^verbatim>\<open>n_threads\<close> is always written; any other entry whose value is zero is
  written (with the value zero) when the option to include empty values is on and leaves
  the fields as they are when it is off, for the three types the loop has a case for;
  an entry of another type is never written. In the loop over the kernel-side list an
  entry of the 64-bit type named \<^verbatim>\<open>n_evts\<close> or \<^verbatim>\<open>n_drops\<close> is always written, zero or
  not; any other zero-valued entry of the 64-bit type is written exactly when the option
  is on; an entry of another type is never written.
\<close>

theorem zero_valued_counters:
  "(c_str (name s) \<noteq> ''n_fds'' \<and> c_str (name s) \<noteq> ''n_threads'' \<longrightarrow>
      (type s = STATS_VALUE_TYPE_U64 \<and> value_u64 s = 0 \<longrightarrow>
         sinsp_stat_fields K config flds s =
           (if m_metrics_include_empty_values config
            then flds(metric_name K ''falco.'' s \<mapsto> JU64 0) else flds)) \<and>
      (type s = STATS_VALUE_TYPE_U32 \<and> value_u32 s = 0 \<longrightarrow>
         sinsp_stat_fields K config flds s =
           (if m_metrics_include_empty_values config
            then flds(metric_name K ''falco.'' s \<mapsto> JU32 0) else flds)) \<and>
      (type s = STATS_VALUE_TYPE_D \<and> value_d s = 0 \<longrightarrow>
         sinsp_stat_fields K config flds s =
           (if m_metrics_include_empty_values config
            then flds(metric_name K ''falco.'' s \<mapsto> JDouble 0) else flds)) \<and>
      (type s = STATS_VALUE_TYPE_OTHER \<longrightarrow> sinsp_stat_fields K config flds s = flds)) \<and>
   (c_str (name s) = ''n_fds'' \<or> c_str (name s) = ''n_threads'' \<longrightarrow>
      metric_name K ''falco.'' s \<in> dom (sinsp_stat_fields K config flds s)) \<and>
   (type s = STATS_VALUE_TYPE_U64 \<and> value_u64 s = 0 \<and>
    c_str (name s) \<noteq> ''n_evts'' \<and> c_str (name s) \<noteq> ''n_drops'' \<longrightarrow>
      scap_stat_fields K config dt l s =
        (if m_metrics_include_empty_values config
         then l\<lparr>l_fields := (l_fields l)(metric_name K ''scap.'' s \<mapsto> JU64 0)\<rparr> else l)) \<and>
   (type s = STATS_VALUE_TYPE_U64 \<and>
    (c_str (name s) = ''n_evts'' \<or> c_str (name s) = ''n_drops'') \<longrightarrow>
      l_fields (scap_stat_fields K config dt l s) (metric_name K ''scap.'' s) =
        Some (JU64 (value_u64 s))) \<and>
   (type s \<noteq> STATS_VALUE_TYPE_U64 \<longrightarrow> scap_stat_fields K config dt l s = l)"
proof -
  have engine: "sinsp_stat_fields K config flds s =
      (if m_metrics_include_empty_values config
       then flds(metric_name K ''falco.'' s \<mapsto>
              (case type s of STATS_VALUE_TYPE_U64 \<Rightarrow> JU64 0
               | STATS_VALUE_TYPE_U32 \<Rightarrow> JU32 0 | _ \<Rightarrow> JDouble 0))
       else flds)"
    if "c_str (name s) \<noteq> ''n_fds''" "c_str (name s) \<noteq> ''n_threads''"
      and "type s = STATS_VALUE_TYPE_U64 \<and> value_u64 s = 0 \<or>
           type s = STATS_VALUE_TYPE_U32 \<and> value_u32 s = 0 \<or>
           type s = STATS_VALUE_TYPE_D \<and> value_d s = 0"
    using that
    by (auto simp: sinsp_stat_fields_def Let_def is_n_fds is_n_threads)
  have other: "sinsp_stat_fields K config flds s = flds"
    if "c_str (name s) \<noteq> ''n_fds''" "c_str (name s) \<noteq> ''n_threads''"
      and "type s = STATS_VALUE_TYPE_OTHER"
    using that by (simp add: sinsp_stat_fields_def Let_def is_n_fds is_n_threads)
  have reserved: "metric_name K ''falco.'' s \<in> dom (sinsp_stat_fields K config flds s)"
    if "c_str (name s) = ''n_fds'' \<or> c_str (name s) = ''n_threads''"
    using that
    by (cases "type s") (auto simp: sinsp_stat_fields_def Let_def is_n_fds is_n_threads)
  have kernel: "scap_stat_fields K config dt l s =
      (if m_metrics_include_empty_values config
       then l\<lparr>l_fields := (l_fields l)(metric_name K ''scap.'' s \<mapsto> JU64 0)\<rparr> else l)"
    if "type s = STATS_VALUE_TYPE_U64" "value_u64 s = 0"
      "c_str (name s) \<noteq> ''n_evts''" "c_str (name s) \<noteq> ''n_drops''"
    using that by (simp add: scap_stat_fields_def Let_def is_n_evts is_n_drops)
  have always: "l_fields (scap_stat_fields K config dt l s) (metric_name K ''scap.'' s) =
      Some (JU64 (value_u64 s))"
    if "type s = STATS_VALUE_TYPE_U64"
      and "c_str (name s) = ''n_evts'' \<or> c_str (name s) = ''n_drops''"
    using that scap_key_n_evts [of s K] scap_key_n_drops [of s K]
    by (auto simp: scap_stat_fields_def Let_def is_n_evts is_n_drops)
  have untyped: "scap_stat_fields K config dt l s = l" if "type s \<noteq> STATS_VALUE_TYPE_U64"
    using that by (cases "type s") (simp_all add: scap_stat_fields_def Let_def)
  from engine other reserved kernel always untyped show ?thesis
    by (auto split: if_splits)
qed

theorem zero_valued_counters_witness:
  "sinsp_stat_fields example_consts example_config Map.empty (u64_stat ''n_added_fds'' 0) =
     Map.empty \<and>
   sinsp_stat_fields example_consts (example_config\<lparr>m_metrics_include_empty_values := True\<rparr>)
       Map.empty (u64_stat ''n_added_fds'' 0) = [''falco.n_added_fds'' \<mapsto> JU64 0] \<and>
   ''falco.n_fds'' \<in>
     dom (sinsp_stat_fields example_consts example_config Map.empty (u64_stat ''n_fds'' 0)) \<and>
   scap_stat_fields example_consts example_config 1 example_loop_state
       (u64_stat ''n_drops_buffer_total'' 0) = example_loop_state \<and>
   l_fields (scap_stat_fields example_consts example_config 1 example_loop_state
       (u64_stat ''n_drops'' 0)) ''scap.n_drops'' = Some (JU64 0) \<and>
   scap_stat_fields example_consts example_config 1 example_loop_state
       (u32_stat ''n_evts'' 0) = example_loop_state"
proof -
  note defs = example_defs name_simps
  show ?thesis
    using
      zero_valued_counters [of "u64_stat ''n_added_fds'' 0" example_consts example_config
        Map.empty 1 example_loop_state]
      zero_valued_counters [of "u64_stat ''n_added_fds'' 0" example_consts
        "example_config\<lparr>m_metrics_include_empty_values := True\<rparr>" Map.empty 1
        example_loop_state]
      zero_valued_counters [of "u64_stat ''n_fds'' 0" example_consts example_config
        Map.empty 1 example_loop_state]
      zero_valued_counters [of "u64_stat ''n_drops_buffer_total'' 0" example_consts
        example_config Map.empty 1 example_loop_state]
      zero_valued_counters [of "u64_stat ''n_drops'' 0" example_consts example_config
        Map.empty 1 example_loop_state]
      zero_valued_counters [of "u32_stat ''n_evts'' 0" example_consts example_config
        Map.empty 1 example_loop_state]
    by (simp add: defs)
qed

text \<open>
  At the start of a capture both kernel-side totals are zero. With the option to include
  empty values off, the snapshot has the two fields all the same.
\<close>

theorem zero_n_evts_is_reported:
  "\<not> m_metrics_include_empty_values example_config \<and>
   fst (scap_stats_fields example_consts example_config
          (example_inspector [] [u64_stat ''n_evts'' 0, u64_stat ''n_drops'' 0])
          zero_collector Map.empty 0) ''scap.n_evts'' = Some (JU64 0) \<and>
   fst (scap_stats_fields example_consts example_config
          (example_inspector [] [u64_stat ''n_evts'' 0, u64_stat ''n_drops'' 0])
          zero_collector Map.empty 0) ''scap.n_drops'' = Some (JU64 0)"
  by (simp add: scap_stats_fields_def scap_stat_fields_def nstats_def Let_def example_defs
      name_simps)




section \<open>Rates and counter deltas\<close>










section \<open>The drop percentage\<close>









section \<open>collect: one snapshot per tick\<close>

lemma wrapper_m_last_tick:
  "m_last_tick (snd (get_metrics_output_fields_wrapper K inspector c flds now src n dt)) =
     m_last_tick c"
  by (simp add: get_metrics_output_fields_wrapper_def Let_def)

lemma scap_stat_fields_m_last_tick:
  "m_last_tick (l_collector (scap_stat_fields K config dt l s)) = m_last_tick (l_collector l)"
  by (cases "type s") (simp_all add: scap_stat_fields_def Let_def)

lemma scap_stats_loop_m_last_tick:
  "m_last_tick (l_collector (scap_stats_loop K config dt l xs)) = m_last_tick (l_collector l)"
  by (induction xs arbitrary: l) (simp_all add: scap_stat_fields_m_last_tick)

lemma additional_m_last_tick:
  "m_last_tick (snd (get_metrics_output_fields_additional K config inspector c flds dt src)) =
     m_last_tick c"
  by (simp add: get_metrics_output_fields_additional_def scap_stats_fields_def Let_def
      scap_stats_loop_m_last_tick split: option.splits)

lemma collect_no_op:
  assumes "\<not> has_output w \<or> tick = m_last_tick c"
  shows "collect K config tick now inspector src n (c, w) = Running (c, w)"
  using assms by (auto simp: collect_def)

lemma collect_new_tick:
  assumes "has_output w" and "tick \<noteq> m_last_tick c"
  shows "\<exists>c' m. m_last_tick c' = tick \<and> \<not> stop m \<and> ts m = now \<and> source m = src \<and>
           collect K config tick now inspector src n (c, w) =
             (if length (m_queue w) < m_outputs_queue_capacity config
              then Running (c', w\<lparr>m_queue := m_queue w @ [m]\<rparr>)
              else Exited
                     (''Fatal error: Stats queue reached maximum capacity. Exiting.'' @ [CHR 0x0A])
                     EXIT_FAILURE)"
proof -
  define c1 where "c1 = c\<lparr>m_last_tick := tick, m_last_now := now\<rparr>"
  define dt where "dt = u64_to_double (if m_last_now c \<noteq> 0 then now - m_last_now c else 0) /
      u64_to_double ONE_SECOND_IN_NS"
  define r1 where "r1 = get_metrics_output_fields_wrapper K inspector c1 Map.empty now src n dt"
  define r2 where
    "r2 = get_metrics_output_fields_additional K config inspector (snd r1) (fst r1) dt src"
  define m where "m = \<lparr>stop = False, ts = now, source = src, output_fields = fst r2\<rparr>"
  have "m_last_tick (snd r2) = tick"
    by (simp add: r2_def r1_def additional_m_last_tick wrapper_m_last_tick c1_def)
  moreover have "collect K config tick now inspector src n (c, w) =
      (case push config w m of
         Exited line status \<Rightarrow> Exited line status
       | Running w' \<Rightarrow> Running (snd r2, w'))"
    using assms
    by (simp add: collect_def Let_def case_prod_beta m_def r2_def r1_def dt_def c1_def
        cong: process.case_cong)
  moreover have "push config w m =
      (if length (m_queue w) < m_outputs_queue_capacity config
       then Running (w\<lparr>m_queue := m_queue w @ [m]\<rparr>)
       else Exited (''Fatal error: Stats queue reached maximum capacity. Exiting.'' @ [CHR 0x0A])
              EXIT_FAILURE)"
    by (simp add: push_def try_push_def)
  moreover have "\<not> stop m" "ts m = now" "source m = src"
    by (simp_all add: m_def)
  ultimately show ?thesis
    by (intro exI [of _ "snd r2"] exI [of _ m]) simp
qed

lemma collect_calls_no_op:
  assumes "\<not> has_output w \<or> tick = m_last_tick c"
  shows "collect_calls K config tick calls (c, w) = Running (c, w)"
  using assms by (induction calls) (simp_all add: collect_no_op)

text \<open>
  Claim C1, as the code has it. Take the calls of \<^verbatim>\<open>collect\<close> a collector makes while the
  ticker reads \<open>tick\<close>. If the writer has no output, or \<open>tick\<close> is the last tick the
  collector has recorded, no call changes the collector or the queue. Otherwise the first
  call builds one snapshot and hands it to \<^verbatim>\<open>push\<close>: when the queue is below its capacity the
  snapshot is enqueued and the last tick recorded is \<open>tick\<close>, and every later call of the
  run changes nothing, so the run has enqueued exactly one snapshot; when the queue is at
  capacity the process exits.
\<close>

theorem collect_once_per_tick:
  "(\<not> has_output w \<or> tick = m_last_tick c \<longrightarrow>
      collect_calls K config tick calls (c, w) = Running (c, w)) \<and>
   (has_output w \<and> tick \<noteq> m_last_tick c \<longrightarrow>
      collect_calls K config tick (a # calls) (c, w) =
        collect K config tick (arg_now a) (arg_inspector a) (arg_src a) (arg_num_evts a) (c, w) \<and>
      (length (m_queue w) < m_outputs_queue_capacity config \<longrightarrow>
         (\<exists>c' m. collect K config tick (arg_now a) (arg_inspector a) (arg_src a)
                    (arg_num_evts a) (c, w) =
                  Running (c', w\<lparr>m_queue := m_queue w @ [m]\<rparr>) \<and>
                m_last_tick c' = tick \<and> \<not> stop m \<and> ts m = arg_now a \<and>
                source m = arg_src a)) \<and>
      (\<not> length (m_queue w) < m_outputs_queue_capacity config \<longrightarrow>
         collect K config tick (arg_now a) (arg_inspector a) (arg_src a) (arg_num_evts a)
           (c, w) =
         Exited (''Fatal error: Stats queue reached maximum capacity. Exiting.'' @ [CHR 0x0A])
           EXIT_FAILURE))"
proof (intro conjI impI)
  assume "\<not> has_output w \<or> tick = m_last_tick c"
  then show "collect_calls K config tick calls (c, w) = Running (c, w)"
    by (rule collect_calls_no_op)
next
  assume new: "has_output w \<and> tick \<noteq> m_last_tick c"
  from collect_new_tick [of w tick c "arg_now a" "arg_src a" K config "arg_inspector a"
      "arg_num_evts a"] new
  obtain c' m where cm: "m_last_tick c' = tick" "\<not> stop m" "ts m = arg_now a"
      "source m = arg_src a"
      "collect K config tick (arg_now a) (arg_inspector a) (arg_src a) (arg_num_evts a) (c, w) =
         (if length (m_queue w) < m_outputs_queue_capacity config
          then Running (c', w\<lparr>m_queue := m_queue w @ [m]\<rparr>)
          else Exited
                 (''Fatal error: Stats queue reached maximum capacity. Exiting.'' @ [CHR 0x0A])
                 EXIT_FAILURE)"
    by blast
  show "collect_calls K config tick (a # calls) (c, w) =
      collect K config tick (arg_now a) (arg_inspector a) (arg_src a) (arg_num_evts a) (c, w)"
    using cm(1,5) collect_calls_no_op [of "w\<lparr>m_queue := m_queue w @ [m]\<rparr>" tick c' K config calls]
    by simp
  {
    assume "length (m_queue w) < m_outputs_queue_capacity config"
    with cm show "\<exists>c' m. collect K config tick (arg_now a) (arg_inspector a) (arg_src a)
                    (arg_num_evts a) (c, w) =
                  Running (c', w\<lparr>m_queue := m_queue w @ [m]\<rparr>) \<and>
                m_last_tick c' = tick \<and> \<not> stop m \<and> ts m = arg_now a \<and>
                source m = arg_src a"
      by auto
  }
  {
    assume "\<not> length (m_queue w) < m_outputs_queue_capacity config"
    with cm(5) show "collect K config tick (arg_now a) (arg_inspector a) (arg_src a)
        (arg_num_evts a) (c, w) =
      Exited (''Fatal error: Stats queue reached maximum capacity. Exiting.'' @ [CHR 0x0A])
        EXIT_FAILURE"
      by simp
  }
qed

theorem collect_once_per_tick_witness:
  "has_output (stats_writer_init example_config) \<and>
   (1 :: ticker_t) \<noteq> m_last_tick zero_collector \<and>
   length (m_queue (stats_writer_init example_config)) <
     m_outputs_queue_capacity example_config \<and>
   (\<exists>c' m. collect_calls example_consts example_config 1
              [example_call 6000000000 150, example_call 6000000500 151,
               example_call 6000000900 152]
              (zero_collector, stats_writer_init example_config) =
            Running (c', \<lparr>m_initialized = True, m_queue = [m]\<rparr>) \<and>
          m_last_tick c' = 1 \<and> \<not> stop m \<and> ts m = 6000000000 \<and> source m = ''syscall'') \<and>
   collect_calls example_consts example_config 1
     [example_call 6000000000 150, example_call 6000000500 151]
     (example_collector, stats_writer_init example_config) =
   Running (example_collector, stats_writer_init example_config)"
proof -
  define w where "w = stats_writer_init example_config"
  define a where "a = example_call 6000000000 150"
  define calls where "calls = [example_call 6000000500 151, example_call 6000000900 152]"
  have w: "w = \<lparr>m_initialized = True, m_queue = []\<rparr>"
    by (simp add: w_def stats_writer_init_def example_config_def)
  have h1: "has_output w"
    by (simp add: w has_output_def)
  have h2: "(1 :: ticker_t) \<noteq> m_last_tick zero_collector"
    by (simp add: zero_collector_def)
  have h3: "length (m_queue w) < m_outputs_queue_capacity example_config"
    by (simp add: w example_config_def)
  have h4: "(1 :: ticker_t) = m_last_tick example_collector"
    by (simp add: example_collector_def)
  from collect_once_per_tick [of w 1 zero_collector example_consts example_config calls a]
    h1 h2 h3
  obtain c' m where
    "collect_calls example_consts example_config 1 (a # calls) (zero_collector, w) =
       Running (c', w\<lparr>m_queue := m_queue w @ [m]\<rparr>)"
    "m_last_tick c' = 1" "\<not> stop m" "ts m = arg_now a" "source m = arg_src a"
    by auto
  then have first: "\<exists>c' m. collect_calls example_consts example_config 1 (a # calls)
        (zero_collector, w) = Running (c', \<lparr>m_initialized = True, m_queue = [m]\<rparr>) \<and>
      m_last_tick c' = 1 \<and> \<not> stop m \<and> ts m = 6000000000 \<and> source m = ''syscall''"
    by (auto simp: w a_def example_call_def)
  from collect_once_per_tick [of w 1 example_collector example_consts example_config
      "[example_call 6000000000 150, example_call 6000000500 151]" a] h4
  have second: "collect_calls example_consts example_config 1
      [example_call 6000000000 150, example_call 6000000500 151] (example_collector, w) =
      Running (example_collector, w)"
    by simp
  from h1 h2 h3 first second show ?thesis
    unfolding w_def a_def calls_def by simp
qed

text \<open>
  With metrics disabled the writer has no output. The ticker differs from the last tick
  the collector has recorded, and \<^verbatim>\<open>collect\<close> returns with the collector and the empty queue
  unchanged: no snapshot is pushed and the last tick is not updated.
\<close>

theorem collect_without_output_is_no_op:
  "(1 :: ticker_t) \<noteq> m_last_tick zero_collector \<and>
   m_queue (stats_writer_init metrics_off_config) = [] \<and>
   collect example_consts metrics_off_config 1 6000000000
     (example_inspector [] example_kernel_counters) ''syscall'' 150
     (zero_collector, stats_writer_init metrics_off_config) =
   Running (zero_collector, stats_writer_init metrics_off_config)"
  by (simp add: collect_def has_output_def stats_writer_init_def metrics_off_config_def
      example_config_def zero_collector_def)

end
